theory Spec2Isabelle
  imports Main "HOL-Library.Word"
begin

unbundle bit_operations_syntax

section \<open>The machine: two 8-bit I/O registers and a log of what the program did\<close>

text \<open>
  \<^verbatim>\<open>blink.c\<close> touches two special-function registers of the ATmega port B, both
  declared by \<^verbatim>\<open>avr/io.h\<close> as \<^verbatim>\<open>volatile uint8_t\<close> lvalues, and calls the
  busy-wait \<^verbatim>\<open>_delay_ms\<close> of \<^verbatim>\<open>util/delay.h\<close>. The state is the content of the two
  registers together with the chronological list of the externally visible actions
  (register stores and delay calls) performed so far; the newest action is last.
\<close>

type_synonym uint8_t = "8 word"

text \<open>The C type \<^verbatim>\<open>int\<close> of avr-gcc is 16 bits wide; only its bit pattern matters here.\<close>

type_synonym c_int = "16 word"

datatype reg = DDRB | PORTB

datatype event = Write reg uint8_t | Delay_ms nat

record mcu =
  ddrb :: uint8_t
  portb :: uint8_t
  trace :: "event list"

text \<open>
  The operations are written over \<open>'a mcu_scheme\<close>: the extension field stands for
  whatever else the machine holds (other registers, memory), which the code cannot name.
\<close>

text \<open>
  Modelled from the spec: the macro \<^verbatim>\<open>PB0\<close> comes from the platform header
  \<^verbatim>\<open>avr/io.h\<close>, which is not part of the repository; the spec fixes the bit index of
  the controlled pin at position 0 of the port.
\<close>

definition PB0 :: nat where
  "PB0 = 0"

fun read_reg :: "reg \<Rightarrow> 'a mcu_scheme \<Rightarrow> uint8_t" where
  "read_reg DDRB s = ddrb s"
| "read_reg PORTB s = portb s"

fun write_reg :: "reg \<Rightarrow> uint8_t \<Rightarrow> 'a mcu_scheme \<Rightarrow> 'a mcu_scheme" where
  "write_reg DDRB v s = s\<lparr>ddrb := v, trace := trace s @ [Write DDRB v]\<rparr>"
| "write_reg PORTB v s = s\<lparr>portb := v, trace := trace s @ [Write PORTB v]\<rparr>"

text \<open>
  \<^verbatim>\<open>r |= k\<close> and \<^verbatim>\<open>r &= k\<close> with \<^verbatim>\<open>r\<close> a \<^verbatim>\<open>uint8_t\<close> and \<^verbatim>\<open>k\<close> an \<^verbatim>\<open>int\<close>: the register is
  read and promoted to \<^verbatim>\<open>int\<close> (zero extension), the operation is done on \<^verbatim>\<open>int\<close>, and the
  result is converted back to \<^verbatim>\<open>uint8_t\<close> (truncation to the low byte) and stored.
\<close>

definition or_assign :: "reg \<Rightarrow> c_int \<Rightarrow> 'a mcu_scheme \<Rightarrow> 'a mcu_scheme" where
  "or_assign r k s = write_reg r (ucast ((ucast (read_reg r s) :: c_int) OR k)) s"

definition and_assign :: "reg \<Rightarrow> c_int \<Rightarrow> 'a mcu_scheme \<Rightarrow> 'a mcu_scheme" where
  "and_assign r k s = write_reg r (ucast ((ucast (read_reg r s) :: c_int) AND k)) s"

text \<open>\<^verbatim>\<open>_delay_ms(n)\<close>: returns after the wait, leaving the registers alone.\<close>

definition delay_ms :: "nat \<Rightarrow> 'a mcu_scheme \<Rightarrow> 'a mcu_scheme" where
  "delay_ms n s = s\<lparr>trace := trace s @ [Delay_ms n]\<rparr>"

section \<open>The two functions of blink.c\<close>

text \<open>\<^verbatim>\<open>void blink_led_init(void){ DDRB |= (1 << PB0); }\<close>\<close>

definition blink_led_init :: "'a mcu_scheme \<Rightarrow> 'a mcu_scheme" where
  "blink_led_init s = or_assign DDRB (push_bit PB0 1) s"

text \<open>
  \<^verbatim>\<open>void blink_led(void){ PORTB |= (1 << PB0); _delay_ms(1000);
                        PORTB &= ~(1 << PB0); _delay_ms(1000); }\<close>
\<close>

definition blink_led :: "'a mcu_scheme \<Rightarrow> 'a mcu_scheme" where
  "blink_led s =
     (let s1 = or_assign PORTB (push_bit PB0 1) s;
          s2 = delay_ms 1000 s1;
          s3 = and_assign PORTB (NOT (push_bit PB0 1)) s2;
          s4 = delay_ms 1000 s3
      in s4)"

section \<open>Observations on a run\<close>

text \<open>The actions performed between an earlier state and a later one.\<close>

definition emitted :: "'a mcu_scheme \<Rightarrow> 'a mcu_scheme \<Rightarrow> event list" where
  "emitted s s' = drop (length (trace s)) (trace s')"

text \<open>The values stored into one register, in order.\<close>

fun writes_to :: "reg \<Rightarrow> event list \<Rightarrow> uint8_t list" where
  "writes_to r [] = []"
| "writes_to r (Write r' v # es) = (if r' = r then v # writes_to r es else writes_to r es)"
| "writes_to r (Delay_ms n # es) = writes_to r es"

text \<open>The level driven on pin PB0 by each store to the output register.\<close>

definition pin_levels :: "event list \<Rightarrow> bool list" where
  "pin_levels es = map (\<lambda>v. bit v PB0) (writes_to PORTB es)"

text \<open>The durations passed to the delay primitive, in order.\<close>

fun delays_of :: "event list \<Rightarrow> nat list" where
  "delays_of [] = []"
| "delays_of (Write r v # es) = delays_of es"
| "delays_of (Delay_ms n # es) = n # delays_of es"

text \<open>The mask \<^verbatim>\<open>1 << PB0\<close> of the controlled pin, as a byte.\<close>

abbreviation pin_mask :: uint8_t where
  "pin_mask \<equiv> push_bit PB0 1"

section \<open>Integer promotion does not leak into the stored byte\<close>

lemma or_promoted: "ucast ((ucast (x :: uint8_t) :: c_int) OR k) = x OR (ucast k :: uint8_t)"
  by (rule bit_word_eqI) (auto simp add: bit_simps)

lemma and_promoted: "ucast ((ucast (x :: uint8_t) :: c_int) AND k) = x AND (ucast k :: uint8_t)"
  by (rule bit_word_eqI) (auto simp add: bit_simps)

lemma mask_byte: "(ucast (push_bit PB0 1 :: c_int) :: uint8_t) = pin_mask"
  by (simp add: PB0_def)

lemma not_mask_byte: "(ucast (NOT (push_bit PB0 1 :: c_int)) :: uint8_t) = NOT pin_mask"
  by (simp add: PB0_def)

lemma set_then_clear: "((x :: uint8_t) OR pin_mask) AND NOT pin_mask = x AND NOT pin_mask"
  by (rule bit_word_eqI) (auto simp add: bit_simps)

lemma clear_then_set: "((x :: uint8_t) AND NOT pin_mask) OR pin_mask = x OR pin_mask"
  by (rule bit_word_eqI) (auto simp add: bit_simps)

section \<open>What one call does to the state\<close>

lemma blink_led_init_eq:
  "blink_led_init s =
     s\<lparr>ddrb := ddrb s OR pin_mask, trace := trace s @ [Write DDRB (ddrb s OR pin_mask)]\<rparr>"
  unfolding blink_led_init_def or_assign_def or_promoted mask_byte by simp

lemma blink_led_eq:
  "blink_led s =
     s\<lparr>portb := (portb s OR pin_mask) AND NOT pin_mask,
       trace := trace s @ [Write PORTB (portb s OR pin_mask), Delay_ms 1000,
                           Write PORTB ((portb s OR pin_mask) AND NOT pin_mask), Delay_ms 1000]\<rparr>"
  unfolding blink_led_def or_assign_def and_assign_def delay_ms_def Let_def
    or_promoted and_promoted mask_byte not_mask_byte
  by simp

lemma blink_led_steps:
  "blink_led s =
     delay_ms 1000 (write_reg PORTB ((portb s OR pin_mask) AND NOT pin_mask)
       (delay_ms 1000 (write_reg PORTB (portb s OR pin_mask) s)))"
  unfolding blink_led_def or_assign_def and_assign_def Let_def
    or_promoted and_promoted mask_byte not_mask_byte
  by (simp add: delay_ms_def)

lemma emitted_blink_led_init:
  "emitted s (blink_led_init s) = [Write DDRB (ddrb s OR pin_mask)]"
  by (simp add: emitted_def blink_led_init_eq)

lemma emitted_blink_led:
  "emitted s (blink_led s) =
     [Write PORTB (portb s OR pin_mask), Delay_ms 1000,
      Write PORTB ((portb s OR pin_mask) AND NOT pin_mask), Delay_ms 1000]"
  by (simp add: emitted_def blink_led_eq)

lemma bit_pin_mask: "bit pin_mask n = (n = PB0)"
  by (auto simp add: bit_simps PB0_def)

lemma trace_blink_led_init:
  "trace (blink_led_init s) = trace s @ emitted s (blink_led_init s)"
  by (simp add: emitted_def blink_led_init_eq)

lemma trace_blink_led:
  "trace (blink_led s) = trace s @ emitted s (blink_led s)"
  by (simp add: emitted_def blink_led_eq)

lemma emitted_trans:
  "trace s' = trace s @ es \<Longrightarrow> trace s'' = trace s' @ fs \<Longrightarrow> emitted s s'' = es @ fs"
  by (simp add: emitted_def)

lemma writes_to_append: "writes_to r (es @ fs) = writes_to r es @ writes_to r fs"
  by (induction r es rule: writes_to.induct) simp_all

lemma pin_levels_append: "pin_levels (es @ fs) = pin_levels es @ pin_levels fs"
  by (simp add: pin_levels_def writes_to_append)

lemma pin_levels_one_call: "pin_levels (emitted s (blink_led s)) = [True, False]"
  by (simp add: emitted_blink_led pin_levels_def bit_simps PB0_def)

text \<open>
  The delay primitive is called twice per \<^verbatim>\<open>blink_led\<close>, each time with the argument
  1000, so 2000 ms are requested per call.
\<close>

lemma blink_led_delay_requests:
  "delays_of (emitted s (blink_led s)) = [1000, 1000]
   \<and> sum_list (delays_of (emitted s (blink_led s))) = 2000"
  by (simp add: emitted_blink_led)

section \<open>Repeated calls\<close>

lemma trace_blink_led_funpow:
  "\<exists>es. trace ((blink_led ^^ N) s) = trace s @ es \<and>
        pin_levels es = concat (replicate N [True, False]) \<and>
        writes_to DDRB es = [] \<and>
        delays_of es = concat (replicate N [1000, 1000])"
proof (induction N arbitrary: s)
  case 0
  show ?case by (simp add: pin_levels_def)
next
  case (Suc N)
  from Suc.IH [of "blink_led s"] obtain es where
    tr: "trace ((blink_led ^^ N) (blink_led s)) = trace (blink_led s) @ es"
    and lv: "pin_levels es = concat (replicate N [True, False])"
    and dd: "writes_to DDRB es = []"
    and dl: "delays_of es = concat (replicate N [1000, 1000])"
    by blast
  let ?one = "emitted s (blink_led s)"
  have "trace ((blink_led ^^ Suc N) s) = trace s @ (?one @ es)"
    using tr by (simp add: funpow_swap1 trace_blink_led)
  moreover have "pin_levels (?one @ es) = concat (replicate (Suc N) [True, False])"
    by (simp add: pin_levels_append pin_levels_one_call lv)
  moreover have "writes_to DDRB (?one @ es) = []"
    by (simp add: writes_to_append dd emitted_blink_led)
  moreover have "delays_of (?one @ es) = concat (replicate (Suc N) [1000, 1000])"
    by (simp add: dl emitted_blink_led)
  ultimately show ?case by blast
qed

lemma portb_funpow_init: "portb ((blink_led_init ^^ n) s) = portb s"
  by (induction n) (simp_all add: blink_led_init_eq)

lemma more_funpow_init: "mcu.more ((blink_led_init ^^ n) s) = mcu.more s"
  by (induction n) (simp_all add: blink_led_init_eq)

lemma ddrb_funpow_init: "ddrb ((blink_led_init ^^ Suc n) s) = ddrb s OR pin_mask"
  by (induction n) (simp_all add: blink_led_init_eq or.assoc)

lemma portb_funpow_led: "portb ((blink_led ^^ Suc n) s) = portb s AND NOT pin_mask"
proof (induction n)
  case 0
  show ?case by (simp add: blink_led_eq set_then_clear del: push_bit_of_1)
next
  case (Suc n)
  have "portb ((blink_led ^^ Suc (Suc n)) s) = (portb ((blink_led ^^ Suc n) s)) AND NOT pin_mask"
    by (simp add: blink_led_eq set_then_clear del: push_bit_of_1)
  with Suc.IH show ?case by (simp add: and.assoc del: push_bit_of_1)
qed

lemma concat_replicate_snoc: "concat (replicate N xs) @ xs = xs @ concat (replicate N xs)"
  by (induction N) simp_all

lemma blink_led_funpow_eq:
  "(blink_led ^^ N) s =
     s\<lparr>portb := (if N = 0 then portb s else portb s AND NOT pin_mask),
       trace := trace s @ concat (replicate N
         [Write PORTB (portb s OR pin_mask), Delay_ms 1000,
          Write PORTB (portb s AND NOT pin_mask), Delay_ms 1000])\<rparr>"
proof (induction N)
  case 0
  show ?case by simp
next
  case (Suc N)
  let ?cyc = "[Write PORTB (portb s OR pin_mask), Delay_ms 1000,
               Write PORTB (portb s AND NOT pin_mask), Delay_ms 1000]"
  let ?t = "(blink_led ^^ N) s"
  have p: "portb ?t = (if N = 0 then portb s else portb s AND NOT pin_mask)"
    by (subst Suc.IH) simp
  have hi: "portb ?t OR pin_mask = portb s OR pin_mask"
    unfolding p by (simp add: clear_then_set del: push_bit_of_1)
  have tr: "trace ?t = trace s @ concat (replicate N ?cyc)"
    by (subst Suc.IH) simp
  have "(blink_led ^^ Suc N) s = blink_led ?t" by simp
  also have "\<dots> = ?t\<lparr>portb := portb s AND NOT pin_mask,
                      trace := trace s @ concat (replicate N ?cyc) @ ?cyc\<rparr>"
    unfolding blink_led_eq [of ?t] hi tr set_then_clear by simp
  also have "\<dots> = s\<lparr>portb := portb s AND NOT pin_mask,
                      trace := trace s @ concat (replicate N ?cyc) @ ?cyc\<rparr>"
    by (subst Suc.IH) simp
  finally show ?case
    unfolding concat_replicate_snoc by simp
qed

section \<open>Properties of the specification\<close>

text \<open>
  C1. Whatever the output register holds before, one call of \<^verbatim>\<open>blink_led\<close> is this
  sequence of steps on the machine: the old value of PORTB with bit PB0 OR-ed in is
  stored into PORTB, 1000 ms are waited, that value AND-ed with the complement of the bit
  is stored into PORTB, and 1000 ms are waited again. The state after the call is the
  state before with PORTB holding the second value and exactly these four actions added
  to the log. The register holds the first value after the first store; that value has
  the bit set and the second has it clear, so the HIGH write comes before the LOW write
  and the register ends with the bit clear.
\<close>

theorem blink_led_sequence:
  "blink_led s =
     s\<lparr>portb := (portb s OR push_bit PB0 1) AND NOT (push_bit PB0 1),
       trace := trace s @
         [Write PORTB (portb s OR push_bit PB0 1), Delay_ms 1000,
          Write PORTB ((portb s OR push_bit PB0 1) AND NOT (push_bit PB0 1)), Delay_ms 1000]\<rparr>
   \<and> blink_led s =
       delay_ms 1000 (write_reg PORTB ((portb s OR push_bit PB0 1) AND NOT (push_bit PB0 1))
         (delay_ms 1000 (write_reg PORTB (portb s OR push_bit PB0 1) s)))
   \<and> portb (write_reg PORTB (portb s OR push_bit PB0 1) s) = portb s OR push_bit PB0 1
   \<and> emitted s (blink_led s) =
       [Write PORTB (portb s OR push_bit PB0 1), Delay_ms 1000,
        Write PORTB ((portb s OR push_bit PB0 1) AND NOT (push_bit PB0 1)), Delay_ms 1000]
   \<and> bit (portb s OR push_bit PB0 1) PB0
   \<and> \<not> bit ((portb s OR push_bit PB0 1) AND NOT (push_bit PB0 1)) PB0
   \<and> \<not> bit (portb (blink_led s)) PB0"
proof -
  have bits: "bit (portb s OR pin_mask) PB0"
    "\<not> bit ((portb s OR pin_mask) AND NOT pin_mask) PB0"
    by (simp_all add: bit_or_iff bit_and_iff bit_not_iff bit_pin_mask del: push_bit_of_1)
  have fin: "portb (blink_led s) = (portb s OR pin_mask) AND NOT pin_mask"
    by (simp add: blink_led_eq)
  have st: "portb (write_reg PORTB (portb s OR pin_mask) s) = portb s OR pin_mask"
    by simp
  show ?thesis
    using blink_led_eq [of s] blink_led_steps [of s] emitted_blink_led [of s] bits st
    unfolding fin by blast
qed

text \<open>
  C2. Whatever the direction register holds before, after \<^verbatim>\<open>blink_led_init\<close> it holds
  the old value OR \<^verbatim>\<open>1 << PB0\<close>: bit PB0 (index 0) is 1 and every other bit has its
  value from before the call.
\<close>

theorem blink_led_init_direction_bit:
  "ddrb (blink_led_init s) = ddrb s OR push_bit PB0 1
   \<and> (\<forall>n. bit (ddrb (blink_led_init s)) n = (n = PB0 \<or> bit (ddrb s) n))"
  by (auto simp add: blink_led_init_eq bit_simps PB0_def)

text \<open>
  C3. During a call of \<^verbatim>\<open>blink_led\<close> the output register is stored to exactly twice,
  and in each stored value, as in the final content of the register, every bit other
  than PB0 has the value it had before the call.
\<close>

theorem blink_led_other_bits:
  "length (writes_to PORTB (emitted s (blink_led s))) = 2
   \<and> (\<forall>v \<in> set (writes_to PORTB (emitted s (blink_led s))).
        \<forall>n. n \<noteq> PB0 \<longrightarrow> bit v n = bit (portb s) n)
   \<and> (\<forall>n. n \<noteq> PB0 \<longrightarrow> bit (portb (blink_led s)) n = bit (portb s) n)"
proof -
  let ?hi = "portb s OR pin_mask"
  let ?lo = "(portb s OR pin_mask) AND NOT pin_mask"
  have ws: "writes_to PORTB (emitted s (blink_led s)) = [?hi, ?lo]"
    by (simp add: emitted_blink_led)
  have hi: "bit ?hi n = bit (portb s) n" if "n \<noteq> PB0" for n
    using that by (simp add: bit_or_iff bit_pin_mask del: push_bit_of_1)
  have lo: "bit ?lo n = bit (portb s) n" if "n \<noteq> PB0" for n
    using that bit_imp_possible_bit [of "portb s" n]
    by (auto simp add: bit_and_iff bit_or_iff bit_not_iff bit_pin_mask simp del: push_bit_of_1)
  have fin: "portb (blink_led s) = ?lo"
    by (simp add: blink_led_eq)
  show ?thesis
    unfolding ws fin using hi lo by simp
qed

theorem blink_led_other_bits_witness:
  "(0xAB :: uint8_t) \<in> set (writes_to PORTB
       (emitted \<lparr>ddrb = 0, portb = 0xAA, trace = []\<rparr>
                (blink_led \<lparr>ddrb = 0, portb = 0xAA, trace = []\<rparr>)))
   \<and> (3 :: nat) \<noteq> PB0
   \<and> bit (0xAB :: uint8_t) 3 = bit (portb \<lparr>ddrb = 0, portb = 0xAA, trace = []\<rparr>) 3
   \<and> bit (portb (blink_led \<lparr>ddrb = 0, portb = 0xAA, trace = []\<rparr>)) 3
       = bit (portb \<lparr>ddrb = 0, portb = 0xAA, trace = []\<rparr>) 3"
proof -
  let ?s = "\<lparr>ddrb = 0, portb = 0xAA, trace = []\<rparr> :: mcu"
  have mem: "(0xAB :: uint8_t) \<in> set (writes_to PORTB (emitted ?s (blink_led ?s)))"
    by (simp add: emitted_blink_led PB0_def)
  have ne: "(3 :: nat) \<noteq> PB0"
    by (simp add: PB0_def)
  from blink_led_other_bits [of ?s] mem ne
  have "bit (0xAB :: uint8_t) 3 = bit (portb ?s) 3"
    and "bit (portb (blink_led ?s)) 3 = bit (portb ?s) 3"
    by blast+
  with mem ne show ?thesis by blast
qed

text \<open>
  C4. \<^verbatim>\<open>blink_led_init\<close> is idempotent: called one or more times in a row from any
  state, it leaves the direction register (and the output register and the rest of the
  machine) as a single call does.
\<close>

theorem blink_led_init_idempotent:
  "ddrb ((blink_led_init ^^ Suc n) s) = ddrb (blink_led_init s)
   \<and> portb ((blink_led_init ^^ Suc n) s) = portb (blink_led_init s)
   \<and> mcu.more ((blink_led_init ^^ Suc n) s) = mcu.more (blink_led_init s)"
  using ddrb_funpow_init [of n s] portb_funpow_init [of "Suc n" s] more_funpow_init [of "Suc n" s]
  by (simp add: blink_led_init_eq)

text \<open>
  C6. For every N and every initial state, \<^verbatim>\<open>blink_led_init\<close> followed by N calls of
  \<^verbatim>\<open>blink_led\<close> drives pin PB0 through exactly N high/low pulses. The state reached
  is the initial one with bit PB0 of DDRB set, with PORTB holding its old value with bit
  PB0 cleared (its old value when N = 0), and with the log extended by the store to DDRB
  followed by N repetitions of: store PORTB with the bit set, wait 1000 ms, store PORTB
  with the bit clear, wait 1000 ms. Hence the levels written to bit PB0 of the output
  register are N repetitions of (1, 0), and the pin is configured as an output throughout.
\<close>

theorem blink_led_pulses:
  "(blink_led ^^ N) (blink_led_init s) =
     s\<lparr>ddrb := ddrb s OR push_bit PB0 1,
       portb := (if N = 0 then portb s else portb s AND NOT (push_bit PB0 1)),
       trace := trace s @ Write DDRB (ddrb s OR push_bit PB0 1) #
         concat (replicate N
           [Write PORTB (portb s OR push_bit PB0 1), Delay_ms 1000,
            Write PORTB (portb s AND NOT (push_bit PB0 1)), Delay_ms 1000])\<rparr>
   \<and> emitted s ((blink_led ^^ N) (blink_led_init s)) =
       Write DDRB (ddrb s OR push_bit PB0 1) #
         concat (replicate N
           [Write PORTB (portb s OR push_bit PB0 1), Delay_ms 1000,
            Write PORTB (portb s AND NOT (push_bit PB0 1)), Delay_ms 1000])
   \<and> pin_levels (emitted s ((blink_led ^^ N) (blink_led_init s)))
       = concat (replicate N [True, False])
   \<and> bit (ddrb ((blink_led ^^ N) (blink_led_init s))) PB0"
proof -
  let ?cyc = "[Write PORTB (portb s OR pin_mask), Delay_ms 1000,
               Write PORTB (portb s AND NOT pin_mask), Delay_ms 1000]"
  let ?r = "(blink_led ^^ N) (blink_led_init s)"
  have st: "?r = s\<lparr>ddrb := ddrb s OR pin_mask,
                    portb := (if N = 0 then portb s else portb s AND NOT pin_mask),
                    trace := trace s @ Write DDRB (ddrb s OR pin_mask) #
                             concat (replicate N ?cyc)\<rparr>"
    unfolding blink_led_funpow_eq [of N "blink_led_init s"]
    by (simp add: blink_led_init_eq)
  have em: "emitted s ?r = Write DDRB (ddrb s OR pin_mask) # concat (replicate N ?cyc)"
    by (subst st) (simp add: emitted_def)
  obtain es where tr: "trace ?r = trace (blink_led_init s) @ es"
    and lv: "pin_levels es = concat (replicate N [True, False])"
    using trace_blink_led_funpow [of N "blink_led_init s"] by blast
  have "emitted s ?r = emitted s (blink_led_init s) @ es"
    using trace_blink_led_init [of s] tr by (rule emitted_trans)
  moreover have "pin_levels (emitted s (blink_led_init s)) = []"
    by (simp add: emitted_blink_led_init pin_levels_def)
  ultimately have pl: "pin_levels (emitted s ?r) = concat (replicate N [True, False])"
    by (simp add: pin_levels_append lv)
  have "ddrb ?r = ddrb s OR pin_mask"
    by (subst st) simp
  then have db: "bit (ddrb ?r) PB0"
    by (simp add: bit_or_iff bit_pin_mask del: push_bit_of_1)
  from st em pl db show ?thesis by blast
qed

theorem blink_led_pulses_witness:
  "(blink_led ^^ 2) (blink_led_init \<lparr>ddrb = 0xF0, portb = 0xAB, trace = []\<rparr>) =
     \<lparr>ddrb = 0xF1, portb = 0xAA,
      trace = [Write DDRB 0xF1,
               Write PORTB 0xAB, Delay_ms 1000, Write PORTB 0xAA, Delay_ms 1000,
               Write PORTB 0xAB, Delay_ms 1000, Write PORTB 0xAA, Delay_ms 1000]\<rparr>
   \<and> (blink_led ^^ 0) (blink_led_init \<lparr>ddrb = 0xF0, portb = 0xAB, trace = []\<rparr>) =
     \<lparr>ddrb = 0xF1, portb = 0xAB, trace = [Write DDRB 0xF1]\<rparr>"
  using blink_led_pulses [of 2 "\<lparr>ddrb = 0xF0, portb = 0xAB, trace = []\<rparr>"]
    blink_led_pulses [of 0 "\<lparr>ddrb = 0xF0, portb = 0xAB, trace = []\<rparr>"]
  by (simp add: PB0_def numeral_2_eq_2)

text \<open>
  C7. The only effect of \<^verbatim>\<open>blink_led_init\<close> is one store to the direction register:
  the state after the call is the state before with DDRB replaced and that single store
  appended to the log; the output register and the rest of the machine are untouched.
\<close>

theorem blink_led_init_single_write:
  "blink_led_init s =
     s\<lparr>ddrb := ddrb s OR push_bit PB0 1,
       trace := trace s @ [Write DDRB (ddrb s OR push_bit PB0 1)]\<rparr>
   \<and> emitted s (blink_led_init s) = [Write DDRB (ddrb s OR push_bit PB0 1)]
   \<and> portb (blink_led_init s) = portb s
   \<and> mcu.more (blink_led_init s) = mcu.more s"
  using blink_led_init_eq [of s] emitted_blink_led_init [of s] by simp

text \<open>
  C8. \<^verbatim>\<open>blink_led\<close> never modifies the direction register: its value after the call is
  its value before, and the call performs no store to DDRB.
\<close>

theorem blink_led_keeps_direction:
  "ddrb (blink_led s) = ddrb s \<and> writes_to DDRB (emitted s (blink_led s)) = []"
proof -
  have "ddrb (blink_led s) = ddrb s"
    by (simp add: blink_led_eq)
  moreover have "writes_to DDRB (emitted s (blink_led s)) = []"
    by (simp add: emitted_blink_led)
  ultimately show ?thesis by simp
qed

text \<open>
  C9. After one call of \<^verbatim>\<open>blink_led\<close> the output register holds its initial value
  AND NOT \<^verbatim>\<open>1 << PB0\<close>, so bit PB0 ends 0 whatever it was; one or more consecutive calls
  leave the register as a single call does.
\<close>

theorem blink_led_final_output:
  "portb (blink_led s) = portb s AND NOT (push_bit PB0 1)
   \<and> \<not> bit (portb (blink_led s)) PB0
   \<and> portb ((blink_led ^^ Suc n) s) = portb (blink_led s)"
proof -
  have one: "portb (blink_led s) = portb s AND NOT pin_mask"
    using portb_funpow_led [of 0 s] by simp
  have "\<not> bit (portb s AND NOT pin_mask) PB0"
    by (simp add: bit_and_iff bit_not_iff bit_pin_mask del: push_bit_of_1)
  then show ?thesis
    unfolding one using portb_funpow_led [of n s] by simp
qed

text \<open>
  C10. Both operations are deterministic in the registers: two runs of
  \<^verbatim>\<open>blink_led_init\<close>, or of \<^verbatim>\<open>blink_led\<close>, started from states with equal register
  contents (whatever happened before) end with equal register contents and perform the
  same actions, hence the same stores.
\<close>

theorem blink_deterministic:
  "ddrb s = ddrb t \<Longrightarrow> portb s = portb t \<Longrightarrow>
     ddrb (blink_led_init s) = ddrb (blink_led_init t)
   \<and> portb (blink_led_init s) = portb (blink_led_init t)
   \<and> emitted s (blink_led_init s) = emitted t (blink_led_init t)
   \<and> ddrb (blink_led s) = ddrb (blink_led t)
   \<and> portb (blink_led s) = portb (blink_led t)
   \<and> emitted s (blink_led s) = emitted t (blink_led t)"
  by (simp add: emitted_blink_led emitted_blink_led_init) (simp add: blink_led_eq blink_led_init_eq)

theorem blink_deterministic_witness:
  "ddrb \<lparr>ddrb = 0x0F, portb = 0xAA, trace = []\<rparr>
     = ddrb \<lparr>ddrb = 0x0F, portb = 0xAA, trace = [Delay_ms 5, Write PORTB 0xAA]\<rparr>
   \<and> portb \<lparr>ddrb = 0x0F, portb = 0xAA, trace = []\<rparr>
     = portb \<lparr>ddrb = 0x0F, portb = 0xAA, trace = [Delay_ms 5, Write PORTB 0xAA]\<rparr>
   \<and> portb (blink_led \<lparr>ddrb = 0x0F, portb = 0xAA, trace = []\<rparr>)
     = portb (blink_led \<lparr>ddrb = 0x0F, portb = 0xAA, trace = [Delay_ms 5, Write PORTB 0xAA]\<rparr>)
   \<and> emitted \<lparr>ddrb = 0x0F, portb = 0xAA, trace = []\<rparr>
        (blink_led \<lparr>ddrb = 0x0F, portb = 0xAA, trace = []\<rparr>)
     = emitted \<lparr>ddrb = 0x0F, portb = 0xAA, trace = [Delay_ms 5, Write PORTB 0xAA]\<rparr>
        (blink_led \<lparr>ddrb = 0x0F, portb = 0xAA, trace = [Delay_ms 5, Write PORTB 0xAA]\<rparr>)
   \<and> ddrb (blink_led_init \<lparr>ddrb = 0x0F, portb = 0xAA, trace = []\<rparr>)
     = ddrb (blink_led_init \<lparr>ddrb = 0x0F, portb = 0xAA, trace = [Delay_ms 5, Write PORTB 0xAA]\<rparr>)"
proof -
  let ?s = "\<lparr>ddrb = 0x0F, portb = 0xAA, trace = []\<rparr> :: mcu"
  let ?t = "\<lparr>ddrb = 0x0F, portb = 0xAA, trace = [Delay_ms 5, Write PORTB 0xAA]\<rparr> :: mcu"
  have d: "ddrb ?s = ddrb ?t" and p: "portb ?s = portb ?t"
    by simp_all
  from blink_deterministic [OF d p] d p show ?thesis
    by blast
qed

end
